theory Spec2Isabelle
  imports Main "HOL-Library.Multiset" "HOL-Library.Sublist" "HOL-Library.Product_Lexorder"
begin

section \<open>The service's entry point: the Action of package main\<close>

text \<open>
  The Action closure of \<^verbatim>\<open>main\<close> is straight-line code over calls into the
  operating system and into other packages. The model runs it against a \<open>world\<close>, a
  record of what each of those calls answers, and returns the calls the process makes, in
  order, together with the way the Action ends.
\<close>

subsection \<open>Values\<close>

text \<open>
  Errors as \<^verbatim>\<open>github.com/pkg/errors\<close> builds them: a plain error, or a message wrapped
  around a cause. \<open>Cause\<close> unwraps to the innermost error and \<open>Error\<close> is the text.
\<close>

datatype error = Fundamental string | WithMessage string error

fun Cause :: "error \<Rightarrow> error" where
  "Cause (Fundamental s) = Fundamental s"
| "Cause (WithMessage m e) = Cause e"

fun Error :: "error \<Rightarrow> string" where
  "Error (Fundamental s) = s"
| "Error (WithMessage m e) = m @ '': '' @ Error e"

text \<open>\<^verbatim>\<open>zerolog.Level\<close> is a small integer.\<close>

type_synonym Level = int

text \<open>The two signals main subscribes to with \<^verbatim>\<open>signal.Notify\<close>.\<close>

datatype os_signal = SIGINT | SIGTERM

text \<open>\<^verbatim>\<open>mailer.Config\<close>, field by field.\<close>

record Config =
  Server :: string
  Port :: int
  User :: string
  Password :: string
  From :: string
  To :: string
  Subject :: string

text \<open>\<^verbatim>\<open>collector.DBConfig\<close>, with the five fields main fills in.\<close>

record DBConfig =
  db_Server :: string
  db_Port :: int
  db_User :: string
  db_Password :: string
  db_Database :: string

text \<open>
  The globals of package \<^verbatim>\<open>config\<close> that main reads once \<^verbatim>\<open>config.Load\<close> has
  succeeded. Main copies \<^verbatim>\<open>config.DB\<close> and \<^verbatim>\<open>config.Mail\<close> field by field into a
  \<open>DBConfig\<close> and a \<open>Config\<close>; the model keeps them as those records.
\<close>

record settings =
  General_Root :: string
  General_Schedule :: string
  Log_Pretty :: bool
  Log_Colored :: bool
  Log_Level :: string
  DB :: DBConfig
  Mail :: Config

subsection \<open>The world the Action runs in\<close>

text \<open>
  What reaches the process, in order, from the moment main blocks on \<^verbatim>\<open><-sigs\<close>: a tick
  of the scheduler, which calls the registered \<^verbatim>\<open>changedApptsJob.Run\<close> (a \<^verbatim>\<open>func()\<close>:
  nothing comes back to main); one of the two signals; or \<open>Later\<close>, the passing of time
  in which main's goroutine, unless it is blocked, runs its next statement.
\<close>

datatype arrival = Tick | Signal os_signal | Later

text \<open>
  \<open>smtp_reachable\<close> is a fact of the environment that no statement of main reads: it is
  part of the world so that a mail server that is down at startup can be described.
  \<open>fatal_exits\<close> says whether zerolog's Fatal event ends the process inside \<^verbatim>\<open>Msgf\<close>
  (it calls \<^verbatim>\<open>os.Exit(1)\<close> when the event is written); otherwise the \<^verbatim>\<open>return err\<close>
  that follows it is reached.
\<close>

record world =
  config_Load :: "error + settings"
  os_OpenFile :: "string \<Rightarrow> string \<Rightarrow> error option"
  zerolog_ParseLevel :: "string \<Rightarrow> error + Level"
  collector_OpenSQL :: "DBConfig \<Rightarrow> error option"
  fatal_exits :: bool
  smtp_reachable :: bool
  arrivals :: "arrival list"

subsection \<open>Calls and outcomes\<close>

text \<open>
  One constructor per call of the Action, in the order of the source. \<open>OpenFile\<close> carries
  the two elements given to \<^verbatim>\<open>path.Join\<close>. \<open>JobRun\<close> is a run of the job on the
  scheduler's goroutine. \<open>Panic\<close> is the runtime's panic on the goroutine of package
  \<^verbatim>\<open>os/signal\<close> when it sends a signal on the closed channel \<^verbatim>\<open>sigs\<close>; it ends the
  process with status 2. \<open>WaitWorker\<close> stands for blocking until the Mailer's worker has
  exited: the Action has no such statement and never produces it; it is in the alphabet so
  that an order of shutdown steps which includes it can be written down.
\<close>

datatype event =
    ConfigLoad
  | Fprintf string
  | ShowAppHelp
  | OpenFile string string
  | LogOutputConsole bool
  | LogOutputFile
  | ParseLevel string
  | SetGlobalLevel Level
  | MakeStop
  | OpenSQL DBConfig
  | LogFatal error
  | CollectorNew
  | MailerNew Config
  | MailerRun
  | JobNew
  | CronNew
  | CronAddFunc string
  | CronStart
  | MakeSigs
  | SignalNotify
  | JobRun
  | RecvSignal os_signal
  | CronStop
  | CloseSigs
  | CloseStop
  | DBClose
  | LogFileClose
  | Panic
  | WaitWorker

text \<open>What the Action returns to \<^verbatim>\<open>app.Run\<close>.\<close>

datatype result = ReturnNil | ReturnExit string int | ReturnErr error

text \<open>
  How the Action ends: it returns, or the process is ended before it returns (by
  \<^verbatim>\<open>os.Exit\<close>, or by a panic, with status 2), or it is still blocked on \<^verbatim>\<open><-sigs\<close>
  because no signal has arrived.
\<close>

datatype outcome = Returns result | OsExit int | Blocked

text \<open>
  The exit status of the process. An \<^verbatim>\<open>ExitCoder\<close> returned by the Action makes
  \<^verbatim>\<open>app.Run\<close> exit with its code (cli's \<^verbatim>\<open>HandleExitCoder\<close>); any other error
  reaches the last lines of main, \<^verbatim>\<open>os.Exit(1)\<close>; nil ends main normally.
\<close>

fun exit_status :: "outcome \<Rightarrow> int option" where
  "exit_status (Returns ReturnNil) = Some 0"
| "exit_status (Returns (ReturnExit msg code)) = Some code"
| "exit_status (Returns (ReturnErr e)) = Some 1"
| "exit_status (OsExit code) = Some code"
| "exit_status Blocked = None"

subsection \<open>The Action\<close>

abbreviation nl :: string where
  "nl \<equiv> [CHR 0x0A]"

text \<open>
  The text of the three \<^verbatim>\<open>fmt.Fprintf(ctx.App.Writer, "\n<what>\n%v\n\n", errors.Cause(err))\<close>
  calls.
\<close>

definition failure_text :: "string \<Rightarrow> error \<Rightarrow> string" where
  "failure_text what err = nl @ what @ nl @ Error (Cause err) @ nl @ nl"

text \<open>
  Lines 55 to 94: load the configuration, open the log file, set the logger's output and
  the global level. Each failure prints its cause and the help and returns
  \<^verbatim>\<open>cli.Exit("", 128)\<close>; once the log file is open its deferred \<^verbatim>\<open>Close\<close> runs on
  every return. On success the calls so far and the loaded settings go on.
\<close>

definition configure :: "world \<Rightarrow> (event list \<times> outcome) + (event list \<times> settings)" where
  "configure w =
    (case config_Load w of
       Inl err \<Rightarrow>
         Inl ([ConfigLoad, Fprintf (failure_text ''Could not load configuration file.'' err),
               ShowAppHelp],
              Returns (ReturnExit [] 128))
     | Inr cfg \<Rightarrow>
        (case os_OpenFile w (General_Root cfg) ''emed-mailer.log'' of
           Some err \<Rightarrow>
             Inl ([ConfigLoad, OpenFile (General_Root cfg) ''emed-mailer.log'',
                   Fprintf (failure_text ''Could not open log file.'' err), ShowAppHelp],
                  Returns (ReturnExit [] 128))
         | None \<Rightarrow>
            (let opened = [ConfigLoad, OpenFile (General_Root cfg) ''emed-mailer.log'',
                           (if Log_Pretty cfg then LogOutputConsole (\<not> Log_Colored cfg)
                            else LogOutputFile),
                           ParseLevel (Log_Level cfg)]
             in case zerolog_ParseLevel w (Log_Level cfg) of
                  Inl err \<Rightarrow>
                    Inl (opened @ [Fprintf (failure_text ''Could not parse Log Level.'' err),
                                   ShowAppHelp, LogFileClose],
                         Returns (ReturnExit [] 128))
                | Inr logLvl \<Rightarrow> Inr (opened @ [SetGlobalLevel logLvl], cfg))))"

text \<open>
  Line 140, \<^verbatim>\<open><-sigs\<close>: main blocks until a signal arrives. Ticks before it run the job,
  and time passes without a statement of main. The first signal ends the wait; what
  arrives after it is handed on.
\<close>

fun await_signal :: "arrival list \<Rightarrow> event list \<times> (os_signal \<times> arrival list) option" where
  "await_signal [] = ([], None)"
| "await_signal (Tick # rest) = (JobRun # fst (await_signal rest), snd (await_signal rest))"
| "await_signal (Later # rest) = await_signal rest"
| "await_signal (Signal s # rest) = ([RecvSignal s], Some (s, rest))"

text \<open>
  Lines 144 to 146 and the deferred calls, against what arrives once \<^verbatim>\<open>sigs\<close> is closed.
  Line 143 closes \<^verbatim>\<open>sigs\<close> while it is still registered with \<^verbatim>\<open>signal.Notify\<close> (there
  is no \<^verbatim>\<open>signal.Stop\<close>): a further SIGINT or SIGTERM that reaches the process before
  it has ended is sent on the closed channel, and that send panics. \<open>todo\<close> are the
  statements main has still to run. With each \<open>Later\<close> main runs the next one, and once
  none is left the process has ended; a tick finds the scheduler stopped; when nothing
  more arrives main runs to its end.
\<close>

fun finish :: "event list \<Rightarrow> arrival list \<Rightarrow> event list \<times> outcome" where
  "finish todo [] = (todo, Returns ReturnNil)"
| "finish todo (Signal s # rest) = ([Panic], OsExit 2)"
| "finish todo (Tick # rest) = finish todo rest"
| "finish [] (Later # rest) = ([], Returns ReturnNil)"
| "finish (st # todo) (Later # rest) = (st # fst (finish todo rest), snd (finish todo rest))"

text \<open>
  Lines 114 to 139: the collector, the mailer and its daemon, the job, the scheduler and
  the signal channel. None of these calls hands an error to main (the value of
  \<^verbatim>\<open>cj.AddFunc\<close> is dropped).
\<close>

definition wire :: "settings \<Rightarrow> event list" where
  "wire cfg =
    [CollectorNew, MailerNew (Mail cfg), MailerRun, JobNew, CronNew,
     CronAddFunc (General_Schedule cfg), CronStart, MakeSigs, SignalNotify]"

text \<open>
  Lines 96 to 146. A failed \<^verbatim>\<open>collector.OpenSQL\<close> is logged at Fatal level, which ends
  the process with status 1, or else \<^verbatim>\<open>return err\<close> is reached and the deferred close of
  the log file runs. After the signal: \<^verbatim>\<open>cj.Stop()\<close>, \<^verbatim>\<open>close(sigs)\<close>,
  \<^verbatim>\<open>close(stop)\<close>, \<^verbatim>\<open>return nil\<close>, and the deferred calls in reverse order of their
  registration: \<^verbatim>\<open>db.Close()\<close>, then \<^verbatim>\<open>logFile.Close()\<close>. The model lets
  \<^verbatim>\<open>cj.Stop()\<close> and \<^verbatim>\<open>close(sigs)\<close> follow the receive at once: a signal that comes
  before \<^verbatim>\<open>sigs\<close> is closed only fills the channel's buffer, which nobody reads again, so
  what \<open>arrivals\<close> holds after the first signal is what reaches the process once
  \<^verbatim>\<open>sigs\<close> is closed.
\<close>

definition Action :: "world \<Rightarrow> event list \<times> outcome" where
  "Action w =
    (case configure w of
       Inl failed \<Rightarrow> failed
     | Inr (configured, cfg) \<Rightarrow>
        (case collector_OpenSQL w (DB cfg) of
           Some err \<Rightarrow>
             (let logged = configured @ [MakeStop, OpenSQL (DB cfg),
                                         LogFatal (WithMessage ''could not connect to db'' err)]
              in if fatal_exits w then (logged, OsExit 1)
                 else (logged @ [LogFileClose], Returns (ReturnErr err)))
         | None \<Rightarrow>
            (let wired = configured @ [MakeStop, OpenSQL (DB cfg)] @ wire cfg
             in case await_signal (arrivals w) of
                  (jobs, None) \<Rightarrow> (wired @ jobs, Blocked)
                | (jobs, Some (s, rest)) \<Rightarrow>
                    (wired @ jobs @ [CronStop, CloseSigs]
                       @ fst (finish [CloseStop, DBClose, LogFileClose] rest),
                     snd (finish [CloseStop, DBClose, LogFileClose] rest)))))"

text \<open>The calls that open the database, start the Mailer or build and drive the scheduler.\<close>

fun component_event :: "event \<Rightarrow> bool" where
  "component_event (OpenSQL c) = True"
| "component_event CollectorNew = True"
| "component_event (MailerNew c) = True"
| "component_event MailerRun = True"
| "component_event JobNew = True"
| "component_event CronNew = True"
| "component_event (CronAddFunc s) = True"
| "component_event CronStart = True"
| "component_event JobRun = True"
| "component_event e = False"

text \<open>What the process writes to \<^verbatim>\<open>ctx.App.Writer\<close>: the printed texts and the help.\<close>

datatype written = Text string | HelpText

fun writer_output :: "event list \<Rightarrow> written list" where
  "writer_output [] = []"
| "writer_output (Fprintf s # es) = Text s # writer_output es"
| "writer_output (ShowAppHelp # es) = HelpText # writer_output es"
| "writer_output (e # es) = writer_output es"

text \<open>
  The configuration-stage failure of a world, if it has one: which of the three steps
  fails first, as the message main prints for it, and the error.
\<close>

definition config_failure :: "world \<Rightarrow> (string \<times> error) option" where
  "config_failure w =
    (case config_Load w of
       Inl err \<Rightarrow> Some (''Could not load configuration file.'', err)
     | Inr cfg \<Rightarrow>
        (case os_OpenFile w (General_Root cfg) ''emed-mailer.log'' of
           Some err \<Rightarrow> Some (''Could not open log file.'', err)
         | None \<Rightarrow>
            (case zerolog_ParseLevel w (Log_Level cfg) of
               Inl err \<Rightarrow> Some (''Could not parse Log Level.'', err)
             | Inr logLvl \<Rightarrow> None)))"

subsection \<open>The orders of events the specification describes\<close>





subsection \<open>Concrete worlds\<close>

definition settings0 :: settings where
  "settings0 =
    \<lparr>General_Root = ''/var/emed'', General_Schedule = ''@every 5m'', Log_Pretty = False,
     Log_Colored = False, Log_Level = ''info'',
     DB = \<lparr>db_Server = ''db.local'', db_Port = 1433, db_User = ''emed'',
           db_Password = ''secret'', db_Database = ''appts''\<rparr>,
     Mail = \<lparr>Server = ''smtp.local'', Port = 25, User = ''mailer'', Password = ''secret'',
             From = ''noreply@emed'', To = ''desk@emed'', Subject = ''Appointments''\<rparr>\<rparr>"

text \<open>
  Everything answers; two ticks of the scheduler, then SIGTERM.
\<close>

definition world_ok :: world where
  "world_ok =
    \<lparr>config_Load = Inr settings0,
     os_OpenFile = (\<lambda>dir name. None),
     zerolog_ParseLevel =
       (\<lambda>s. if s = ''info'' then Inr 1 else Inl (Fundamental ''Unknown Level String'')),
     collector_OpenSQL = (\<lambda>c. None),
     fatal_exits = True,
     smtp_reachable = True,
     arrivals = [Tick, Tick, Signal SIGTERM, Tick]\<rparr>"

definition world_no_config :: world where
  "world_no_config =
    world_ok\<lparr>config_Load :=
      Inl (WithMessage ''could not read conf/app.ini'' (Fundamental ''no such file''))\<rparr>"

definition world_no_logfile :: world where
  "world_no_logfile =
    world_ok\<lparr>os_OpenFile := (\<lambda>dir name. Some (Fundamental ''permission denied''))\<rparr>"

definition world_bad_level :: world where
  "world_bad_level = world_ok\<lparr>config_Load := Inr (settings0\<lparr>Log_Level := ''loud''\<rparr>)\<rparr>"




text \<open>
  SIGTERM, and a SIGINT that arrives after main has closed the stop channel and before
  the process has ended.
\<close>

definition world_second_signal :: world where
  "world_second_signal = world_ok\<lparr>arrivals := [Tick, Signal SIGTERM, Later, Signal SIGINT]\<rparr>"

section \<open>The Collector, from the specification\<close>

text \<open>
  Modelled from the spec: package \<^verbatim>\<open>collector\<close> (the Collector and its FetchChanges) is
  not among the source files; main only calls \<^verbatim>\<open>collector.OpenSQL\<close> and
  \<^verbatim>\<open>collector.New\<close>. The definitions of this section follow sections 3 and 4.1 of the
  specification.
\<close>

datatype ChangeKind = Booked | Cancelled

text \<open>
  Modelled from the spec: an AppointmentChange is an identifier, a change kind, a
  timestamp (or change sequence) and the display fields.
\<close>

record AppointmentChange =
  change_id :: nat
  kind :: ChangeKind
  timestamp :: nat
  display :: string

type_synonym Watermark = nat

type_synonym ChangeBatch = "AppointmentChange list"

datatype CollectorError = ConnectionLost | QueryFailed | MappingFailed

text \<open>
  Modelled from the spec: the Collector owns the watermark; \<open>store\<close> is the table of
  appointment rows behind its database connection.
\<close>

record Collector =
  store :: "AppointmentChange list"
  watermark :: Watermark

text \<open>
  Modelled from the spec: the query of FetchChanges, the rows whose timestamp is strictly
  greater than the watermark, ascending by timestamp, ties broken by the row id.
\<close>

definition changes_since :: "Watermark \<Rightarrow> AppointmentChange list \<Rightarrow> ChangeBatch" where
  "changes_since wm rows =
     sort_key (\<lambda>r. (timestamp r, change_id r)) (filter (\<lambda>r. wm < timestamp r) rows)"

text \<open>
  Modelled from the spec: FetchChanges. \<open>fault\<close> is the failure the call meets, if any
  (connection, query or mapping): the call then surfaces the error and the watermark does
  not move. Otherwise the batch is returned and the watermark advanced to the maximum
  timestamp in it; an empty batch leaves it where it is.
\<close>

definition FetchChanges ::
  "CollectorError option \<Rightarrow> Collector \<Rightarrow> (CollectorError + ChangeBatch) \<times> Collector" where
  "FetchChanges fault c =
    (case fault of
       Some e \<Rightarrow> (Inl e, c)
     | None \<Rightarrow>
        (let batch = changes_since (watermark c) (store c)
         in (Inr batch,
             c\<lparr>watermark := (if batch = [] then watermark c
                              else Max (set (map timestamp batch)))\<rparr>)))"




subsection \<open>A concrete run of the Collector\<close>







section \<open>The Mailer, from the specification\<close>

text \<open>
  Modelled from the spec: package \<^verbatim>\<open>mailer\<close>'s TextMailer (Enqueue, and the worker that
  Run starts) is not among the source files; only its Config is, and main's calls of
  \<^verbatim>\<open>mailer.New\<close> and \<^verbatim>\<open>Run\<close>. The definitions of this section follow sections 3, 4.2
  and 5 of the specification.
\<close>

record NotificationMessage =
  recipients :: "string list"
  subject :: string
  body :: string

datatype MailerState = Stopped | Running | Draining

datatype MailerError = NotRunning | AuthFailed | ConnectFailed | SendFailed

record Mailer =
  state :: MailerState
  queue :: "NotificationMessage list"

text \<open>
  Modelled from the spec: Enqueue pushes onto the internal queue and fails with NotRunning
  once shutdown has begun.
\<close>

definition Enqueue :: "NotificationMessage \<Rightarrow> Mailer \<Rightarrow> MailerError option \<times> Mailer" where
  "Enqueue msg m =
    (if state m = Running then (None, m\<lparr>queue := queue m @ [msg]\<rparr>)
     else (Some NotRunning, m))"

text \<open>
  Modelled from the spec: one turn of the single background worker. It pulls the oldest
  message and hands it to the SMTP transport, whose answer (success, or the error that is
  logged) is \<open>answer\<close>; whatever the answer, the message has left the queue. With an
  empty queue a draining worker exits.
\<close>

definition worker_pull ::
  "MailerError option \<Rightarrow> Mailer
     \<Rightarrow> (NotificationMessage \<times> MailerError option) option \<times> Mailer" where
  "worker_pull answer m =
    (if state m = Stopped then (None, m)
     else case queue m of
            [] \<Rightarrow> (None, if state m = Draining then m\<lparr>state := Stopped\<rparr> else m)
          | msg # rest \<Rightarrow> (Some (msg, answer), m\<lparr>queue := rest\<rparr>))"

text \<open>
  Modelled from the spec: the stop signal turns a running Mailer to draining; the end of
  the grace period stops a draining worker whatever is still queued.
\<close>

definition stop_signal :: "Mailer \<Rightarrow> Mailer" where
  "stop_signal m = (if state m = Running then m\<lparr>state := Draining\<rparr> else m)"

definition grace_over :: "Mailer \<Rightarrow> Mailer" where
  "grace_over m = (if state m = Draining then m\<lparr>state := Stopped\<rparr> else m)"

text \<open>
  Modelled from the spec: an execution of the Mailer is any interleaving of Enqueue calls
  by the job, turns of the worker, the stop signal and the end of the grace period. Beside
  the Mailer, \<open>accepted\<close> records the messages Enqueue took, oldest first, and
  \<open>transport\<close> the sends the SMTP transport was asked for, oldest first, each with its
  answer.
\<close>

datatype occurrence =
    Enqueues NotificationMessage
  | Pulls "MailerError option"
  | StopSignal
  | GraceOver

record mail_system =
  mailer :: Mailer
  accepted :: "NotificationMessage list"
  transport :: "(NotificationMessage \<times> MailerError option) list"

fun occur :: "occurrence \<Rightarrow> mail_system \<Rightarrow> mail_system" where
  "occur (Enqueues msg) s =
    (case Enqueue msg (mailer s) of
       (None, m) \<Rightarrow> s\<lparr>mailer := m, accepted := accepted s @ [msg]\<rparr>
     | (Some e, m) \<Rightarrow> s\<lparr>mailer := m\<rparr>)"
| "occur (Pulls answer) s =
    (case worker_pull answer (mailer s) of
       (None, m) \<Rightarrow> s\<lparr>mailer := m\<rparr>
     | (Some attempt, m) \<Rightarrow> s\<lparr>mailer := m, transport := transport s @ [attempt]\<rparr>)"
| "occur StopSignal s = s\<lparr>mailer := stop_signal (mailer s)\<rparr>"
| "occur GraceOver s = s\<lparr>mailer := grace_over (mailer s)\<rparr>"

text \<open>Modelled from the spec: the Mailer right after Run, running with an empty queue.\<close>

definition started :: mail_system where
  "started = \<lparr>mailer = \<lparr>state = Running, queue = []\<rparr>, accepted = [], transport = []\<rparr>"

definition mail_run :: "occurrence list \<Rightarrow> mail_system" where
  "mail_run occs = foldl (\<lambda>s oc. occur oc s) started occs"

subsection \<open>A concrete execution of the Mailer\<close>

definition note1 :: NotificationMessage where
  "note1 = \<lparr>recipients = [''desk@emed''], subject = ''Appointments'', body = ''1 booked''\<rparr>"

definition note2 :: NotificationMessage where
  "note2 = \<lparr>recipients = [''desk@emed''], subject = ''Appointments'', body = ''1 cancelled''\<rparr>"

definition note3 :: NotificationMessage where
  "note3 = \<lparr>recipients = [''desk@emed''], subject = ''Appointments'', body = ''2 booked''\<rparr>"

definition occs0 :: "occurrence list" where
  "occs0 = [Enqueues note1, Enqueues note2, Pulls (Some SendFailed), Enqueues note3,
            StopSignal, Enqueues note1, Pulls None, Pulls None, Pulls None]"

section \<open>Properties of the Action\<close>

subsection \<open>The stages of the Action\<close>

lemma configure_failure:
  assumes "config_failure w = Some (what, err)"
  shows "\<exists>tr. configure w = Inl (tr, Returns (ReturnExit [] 128))
          \<and> writer_output tr = [Text (failure_text what err), HelpText]
          \<and> list_all (\<lambda>e. \<not> component_event e) tr"
  using assms
  by (auto simp: config_failure_def configure_def Let_def
           split: sum.splits option.splits)










subsection \<open>Failures of the configuration stage\<close>

text \<open>
  Claim C10. If loading the configuration file, opening the log file or parsing the
  configured log level fails, the process writes the message for that step with the cause
  of the error, then the help text, and nothing else; it exits with status 128; and no
  call of the run opens the database, creates or starts the Mailer, builds the job or the
  scheduler, or runs the job.
\<close>

theorem config_stage_failure_exits_128:
  assumes "config_failure w = Some (what, err)"
  shows "exit_status (snd (Action w)) = Some 128
       \<and> writer_output (fst (Action w)) = [Text (failure_text what err), HelpText]
       \<and> list_all (\<lambda>e. \<not> component_event e) (fst (Action w))"
proof -
  from configure_failure [OF assms] obtain tr where
    c: "configure w = Inl (tr, Returns (ReturnExit [] 128))"
    and o: "writer_output tr = [Text (failure_text what err), HelpText]"
    and n: "list_all (\<lambda>e. \<not> component_event e) tr"
    by blast
  from c have "Action w = (tr, Returns (ReturnExit [] 128))"
    by (simp add: Action_def)
  with o n show ?thesis by simp
qed

text \<open>
  The three failures at concrete worlds: no configuration file (the printed cause is the
  innermost error), a log file that cannot be opened, and an unknown log level.
\<close>

theorem config_stage_failure_exits_128_witness:
  "config_failure world_no_config
     = Some (''Could not load configuration file.'',
             WithMessage ''could not read conf/app.ini'' (Fundamental ''no such file''))
   \<and> exit_status (snd (Action world_no_config)) = Some 128
   \<and> writer_output (fst (Action world_no_config))
       = [Text (nl @ ''Could not load configuration file.'' @ nl @ ''no such file'' @ nl @ nl),
          HelpText]
   \<and> list_all (\<lambda>e. \<not> component_event e) (fst (Action world_no_config))
   \<and> config_failure world_no_logfile
       = Some (''Could not open log file.'', Fundamental ''permission denied'')
   \<and> exit_status (snd (Action world_no_logfile)) = Some 128
   \<and> list_all (\<lambda>e. \<not> component_event e) (fst (Action world_no_logfile))
   \<and> config_failure world_bad_level
       = Some (''Could not parse Log Level.'', Fundamental ''Unknown Level String'')
   \<and> exit_status (snd (Action world_bad_level)) = Some 128
   \<and> list_all (\<lambda>e. \<not> component_event e) (fst (Action world_bad_level))"
proof -
  have a: "config_failure world_no_config
     = Some (''Could not load configuration file.'',
             WithMessage ''could not read conf/app.ini'' (Fundamental ''no such file''))"
    by (simp add: config_failure_def world_no_config_def world_ok_def)
  have b: "config_failure world_no_logfile
       = Some (''Could not open log file.'', Fundamental ''permission denied'')"
    by (simp add: config_failure_def world_no_logfile_def world_ok_def)
  have c: "config_failure world_bad_level
       = Some (''Could not parse Log Level.'', Fundamental ''Unknown Level String'')"
    by (simp add: config_failure_def world_bad_level_def world_ok_def settings0_def)
  from config_stage_failure_exits_128 [OF a] config_stage_failure_exits_128 [OF b]
    config_stage_failure_exits_128 [OF c] a b c
  show ?thesis by (simp add: failure_text_def)
qed

subsection \<open>Shutdown\<close>




subsection \<open>Startup\<close>







text \<open>
  A second signal that arrives after the stop channel is closed and before the process
  has ended: the run breaks off in the panic, with status 2, and the database connection
  and the log file are not closed.
\<close>

lemma second_signal_panics:
  "Action world_second_signal =
     ([ConfigLoad, OpenFile ''/var/emed'' ''emed-mailer.log'', LogOutputFile,
       ParseLevel ''info'', SetGlobalLevel 1, MakeStop, OpenSQL (DB settings0)]
      @ wire settings0
      @ [JobRun, RecvSignal SIGTERM, CronStop, CloseSigs, CloseStop, Panic],
      OsExit 2)"
  by (simp add: Action_def configure_def world_second_signal_def world_ok_def Let_def)
     (simp add: settings0_def)

section \<open>Properties of the Collector\<close>



lemma FetchChanges_fault: "FetchChanges (Some e) c = (Inl e, c)"
  by (simp add: FetchChanges_def)
















section \<open>Properties of the Mailer\<close>

lemma occur_keeps_order:
  assumes "map fst (transport s) @ queue (mailer s) = accepted s"
  shows "map fst (transport (occur oc s)) @ queue (mailer (occur oc s)) = accepted (occur oc s)"
proof (cases oc)
  case (Enqueues msg)
  with assms show ?thesis by (auto simp: Enqueue_def)
next
  case (Pulls answer)
  with assms show ?thesis
    by (cases "queue (mailer s)") (auto simp: worker_pull_def)
next
  case StopSignal
  with assms show ?thesis by (simp add: stop_signal_def)
next
  case GraceOver
  with assms show ?thesis by (simp add: grace_over_def)
qed

lemma foldl_keeps_order:
  "map fst (transport s) @ queue (mailer s) = accepted s \<Longrightarrow>
   map fst (transport (foldl (\<lambda>s oc. occur oc s) s occs))
     @ queue (mailer (foldl (\<lambda>s oc. occur oc s) s occs))
     = accepted (foldl (\<lambda>s oc. occur oc s) s occs)"
  by (induction occs arbitrary: s) (simp_all add: occur_keeps_order)

text \<open>
  Claim C5. In every execution of the Mailer, the messages handed to the SMTP transport so
  far, followed by the messages still queued, are the messages Enqueue accepted, in the
  order of their acceptance: the k-th send is of the k-th accepted message, whatever the
  answers of the transport were.
\<close>

theorem sent_in_enqueue_order:
  "map fst (transport (mail_run occs)) @ queue (mailer (mail_run occs)) = accepted (mail_run occs)
   \<and> map fst (transport (mail_run occs))
       = take (length (transport (mail_run occs))) (accepted (mail_run occs))"
proof -
  have inv: "map fst (transport (mail_run occs)) @ queue (mailer (mail_run occs)) = accepted (mail_run occs)"
    unfolding mail_run_def by (rule foldl_keeps_order) (simp add: started_def)
  have "take (length (transport (mail_run occs))) (map fst (transport (mail_run occs)) @ queue (mailer (mail_run occs)))
      = map fst (transport (mail_run occs))"
    by simp
  with inv show ?thesis by simp
qed

text \<open>
  Three messages, the first of which fails to send; a fourth Enqueue after the stop signal
  is refused; the worker drains the queue and exits.
\<close>

theorem sent_in_enqueue_order_witness:
  "accepted (mail_run occs0) = [note1, note2, note3]
   \<and> transport (mail_run occs0) = [(note1, Some SendFailed), (note2, None), (note3, None)]
   \<and> map fst (transport (mail_run occs0)) @ queue (mailer (mail_run occs0))
       = accepted (mail_run occs0)
   \<and> map fst (transport (mail_run occs0))
       = take (length (transport (mail_run occs0))) (accepted (mail_run occs0))"
proof -
  have "accepted (mail_run occs0) = [note1, note2, note3]"
    and "transport (mail_run occs0) = [(note1, Some SendFailed), (note2, None), (note3, None)]"
    by (simp_all add: mail_run_def occs0_def started_def Enqueue_def worker_pull_def
          stop_signal_def)
  with sent_in_enqueue_order [of occs0] show ?thesis by blast
qed

subsection \<open>Enqueue once shutdown has begun\<close>

text \<open>
  A Mailer that is not running never runs again, whatever occurs.
\<close>

lemma occur_not_running:
  "state (mailer s) \<noteq> Running \<Longrightarrow> state (mailer (occur oc s)) \<noteq> Running"
proof (cases oc)
  case (Enqueues msg)
  then show "state (mailer s) \<noteq> Running \<Longrightarrow> ?thesis" by (simp add: Enqueue_def)
next
  case (Pulls answer)
  then show "state (mailer s) \<noteq> Running \<Longrightarrow> ?thesis"
    by (cases "queue (mailer s)") (auto simp: worker_pull_def)
next
  case StopSignal
  then show "state (mailer s) \<noteq> Running \<Longrightarrow> ?thesis" by (simp add: stop_signal_def)
next
  case GraceOver
  then show "state (mailer s) \<noteq> Running \<Longrightarrow> ?thesis" by (simp add: grace_over_def)
qed

lemma foldl_not_running:
  "state (mailer s) \<noteq> Running \<Longrightarrow>
   state (mailer (foldl (\<lambda>s oc. occur oc s) s occs)) \<noteq> Running"
  by (induction occs arbitrary: s) (simp_all add: occur_not_running)

lemma not_running_after_stop:
  "state (mailer (mail_run (before @ StopSignal # after))) \<noteq> Running"
  unfolding mail_run_def by (simp add: stop_signal_def foldl_not_running)

text \<open>
  In every execution, an Enqueue that comes after the stop signal has been observed
  returns NotRunning and changes nothing: the queue, the accepted messages and the sends
  of the transport are as before. In any state Enqueue leaves the transport alone, and on
  a running Mailer it appends the message to the queue and returns no error.
\<close>

lemma enqueue_after_stop_refused:
  "Enqueue msg (mailer (mail_run (before @ StopSignal # after)))
     = (Some NotRunning, mailer (mail_run (before @ StopSignal # after)))
   \<and> occur (Enqueues msg) (mail_run (before @ StopSignal # after))
       = mail_run (before @ StopSignal # after)"
  using not_running_after_stop [of before after] by (simp add: Enqueue_def)

lemma enqueue_leaves_transport: "transport (occur (Enqueues msg) s) = transport s"
  by (simp add: Enqueue_def)

lemma enqueue_while_running:
  "state (mailer s) = Running \<Longrightarrow>
     Enqueue msg (mailer s) = (None, (mailer s)\<lparr>queue := queue (mailer s) @ [msg]\<rparr>)"
  by (simp add: Enqueue_def)

end
